theory Spec2Isabelle
  imports Complex_Main
begin

section \<open>The temporal detection filter of object\_detection\_video\_stream.py\<close>

text \<open>
  The class \<^verbatim>\<open>Detector\<close> debounces the per-frame output of an object detector.
  Its method \<^verbatim>\<open>get_detections\<close> reads the clock once, scans the results of one frame
  and updates the fields \<^verbatim>\<open>time_detected\<close> and \<^verbatim>\<open>detections\<close>. The embedding
  passes the object explicitly and returns it updated; the clock reading
  \<^verbatim>\<open>time.time()\<close> is an argument of the call.

  Python floats (times, scores, thresholds) are read as real numbers: the method only
  subtracts two clock readings and compares. The results of a frame are dicts that
  carry the three keys the loop reads, so they are records here. The returned list may
  be the very list object stored in \<^verbatim>\<open>self.detections\<close> (lines 72 and 82); the method
  appends only to the fresh list of line 54, before that list is stored, so lists are
  plain values here.
\<close>

subsection \<open>Data\<close>

text \<open>
  One element of \<^verbatim>\<open>inference_result.results\<close>: a dict with the keys
  \<^verbatim>\<open>'bbox'\<close>, \<^verbatim>\<open>'label'\<close> and \<^verbatim>\<open>'score'\<close>.
\<close>

record result =
  bbox :: "real list"
  label :: string
  score :: real

text \<open>One element of the returned list: \<^verbatim>\<open>{'label': label, 'bbox': bbox}\<close>.\<close>

record detection =
  det_label :: string
  det_bbox :: "real list"

text \<open>The fields of a \<^verbatim>\<open>Detector\<close> instance, in the order \<^verbatim>\<open>__init__\<close> assigns them.\<close>

record detector =
  labels :: "string set"
  score_th :: real
  time_th :: real
  time_detected :: real
  detected :: bool
  detections :: "detection list"

text \<open>The class attribute \<^verbatim>\<open>_absent_time_th = 2\<close>.\<close>

definition absent_time_th :: real where
  "absent_time_th = 2"

text \<open>\<^verbatim>\<open>Detector.__init__\<close>.\<close>

definition init :: "string set \<Rightarrow> real \<Rightarrow> real \<Rightarrow> detector" where
  "init ls s t =
     \<lparr>labels = ls, score_th = s, time_th = t,
      time_detected = - 1, detected = False, detections = []\<rparr>"

subsection \<open>The method get\_detections\<close>

text \<open>
  The condition of line 62, \<^verbatim>\<open>label in self.labels and score > self.score_th\<close>:
  the result counts as evidence that a watched object is present.
\<close>

definition candidate :: "detector \<Rightarrow> result \<Rightarrow> bool" where
  "candidate self r \<longleftrightarrow> label r \<in> labels self \<and> score r > score_th self"

text \<open>
  The condition of line 64,
  \<^verbatim>\<open>self.time_detected > 0.0 and curr_time - self.time_detected > self.time_th\<close>.
  The loop does not assign \<^verbatim>\<open>self.time_detected\<close>, so the condition has one value
  for the whole scan.
\<close>

definition sustained :: "detector \<Rightarrow> real \<Rightarrow> bool" where
  "sustained self curr_time \<longleftrightarrow>
     time_detected self > 0 \<and> curr_time - time_detected self > time_th self"

text \<open>
  The \<^verbatim>\<open>for\<close> loop of lines 58 to 66, with the two locals it updates:
  \<^verbatim>\<open>is_something_detected\<close> and \<^verbatim>\<open>curr_detections\<close>.
\<close>

fun scan :: "detector \<Rightarrow> real \<Rightarrow> result list \<Rightarrow> bool \<times> detection list \<Rightarrow> bool \<times> detection list" where
  "scan self curr_time [] (is_something_detected, curr_detections) =
     (is_something_detected, curr_detections)"
| "scan self curr_time (r # rs) (is_something_detected, curr_detections) =
     (if candidate self r then
        scan self curr_time rs
          (True,
           if sustained self curr_time
           then curr_detections @ [\<lparr>det_label = label r, det_bbox = bbox r\<rparr>]
           else curr_detections)
      else scan self curr_time rs (is_something_detected, curr_detections))"

text \<open>
  Lines 68 to 78: what the method does when a streak is open and the frame holds no
  evidence. It yields the new value of \<^verbatim>\<open>curr_detections\<close> and the updated object.
\<close>

definition absence :: "detector \<Rightarrow> real \<Rightarrow> bool \<Rightarrow> detection list \<Rightarrow> detection list \<times> detector" where
  "absence self curr_time is_something_detected curr_detections =
     (if time_detected self > 0 \<and> \<not> is_something_detected then
        if curr_time - time_detected self < absent_time_th then (detections self, self)
        else if length (detections self) > 0
          then (curr_detections, self\<lparr>detections := [], time_detected := - 1\<rparr>)
          else (curr_detections, self)
      else (curr_detections, self))"

text \<open>
  The whole method: the scan, the absence handling, the refresh of the cache
  (lines 80 to 82), the start of a streak (lines 84 to 87), and the returned list.
\<close>

definition get_detections :: "detector \<Rightarrow> real \<Rightarrow> result list \<Rightarrow> detection list \<times> detector" where
  "get_detections self curr_time results =
     (let (is_something_detected, scanned) = scan self curr_time results (False, []);
          (curr_detections, self1) = absence self curr_time is_something_detected scanned;
          self2 = (if length curr_detections > 0
                   then self1\<lparr>detections := curr_detections\<rparr> else self1);
          self3 = (if is_something_detected \<and> time_detected self2 < 0
                   then self2\<lparr>time_detected := curr_time\<rparr> else self2)
      in (curr_detections, self3))"

text \<open>
  The loop of the main program calls the method once per frame. A frame is the clock
  reading of its call together with its results; \<open>run\<close> collects the returned lists.
\<close>

type_synonym frame = "real \<times> result list"

fun run :: "detector \<Rightarrow> frame list \<Rightarrow> detection list list \<times> detector" where
  "run self [] = ([], self)"
| "run self ((curr_time, results) # fs) =
     (let (out, self1) = get_detections self curr_time results;
          (outs, self2) = run self1 fs
      in (out # outs, self2))"

subsection \<open>Vocabulary of the claims\<close>

text \<open>A frame holds evidence when one of its results passes the test of line 62.\<close>

definition present :: "detector \<Rightarrow> result list \<Rightarrow> bool" where
  "present self results \<longleftrightarrow> (\<exists>r \<in> set results. candidate self r)"

text \<open>What the scan appends for a result: the dict without its score.\<close>

definition strip :: "result \<Rightarrow> detection" where
  "strip r = \<lparr>det_label = label r, det_bbox = bbox r\<rparr>"

text \<open>
  The else branch of line 73 is entered: a streak is open, the frame holds no evidence,
  and the clock is at least \<open>absent_time_th\<close> past the streak start.
\<close>

definition clear_branch :: "detector \<Rightarrow> real \<Rightarrow> result list \<Rightarrow> bool" where
  "clear_branch self curr_time results \<longleftrightarrow>
     time_detected self > 0 \<and> \<not> present self results
     \<and> curr_time - time_detected self \<ge> absent_time_th"

text \<open>The detection of the worked scenario, and what is reported for it.\<close>

definition cat :: result where
  "cat = \<lparr>bbox = [0, 0, 1, 1], label = ''cat'', score = 0.9\<rparr>"

definition cat_reported :: detection where
  "cat_reported = \<lparr>det_label = ''cat'', det_bbox = [0, 0, 1, 1]\<rparr>"

text \<open>
  Two states of the filter \<^verbatim>\<open>Detector({"cat"}, 0.5, 1.0)\<close> and
  \<^verbatim>\<open>Detector({"cat"}, 0.5, 5.0)\<close>: the first has reported the cat for a streak
  that began at clock 10; the second has opened a streak at the clock reading
  1700000000 (seconds since the epoch, as \<^verbatim>\<open>time.time()\<close> counts) and has reported
  nothing.
\<close>

definition cat_verified :: detector where
  "cat_verified = (init {''cat''} 0.5 1)\<lparr>time_detected := 10, detections := [cat_reported]\<rparr>"

definition cat_accumulating :: detector where
  "cat_accumulating = (init {''cat''} 0.5 5)\<lparr>time_detected := 1700000000\<rparr>"

text \<open>Two results that are no evidence for that filter: an unwatched label, a low score.\<close>

definition dog :: result where
  "dog = \<lparr>bbox = [2, 2, 3, 3], label = ''dog'', score = 0.9\<rparr>"

definition faint_cat :: result where
  "faint_cat = \<lparr>bbox = [0, 0, 1, 1], label = ''cat'', score = 0.3\<rparr>"

text \<open>A frame holds evidence for the label \<open>l\<close>; a returned list reports the label \<open>l\<close>.\<close>

definition label_present :: "detector \<Rightarrow> string \<Rightarrow> result list \<Rightarrow> bool" where
  "label_present self l results \<longleftrightarrow> (\<exists>r \<in> set results. candidate self r \<and> label r = l)"

definition reports :: "string \<Rightarrow> detection list \<Rightarrow> bool" where
  "reports l out \<longleftrightarrow> l \<in> det_label ` set out"

text \<open>
  Two objects agree on the fields that \<^verbatim>\<open>get_detections\<close> never assigns: the
  constructor's arguments.
\<close>

definition same_params :: "detector \<Rightarrow> detector \<Rightarrow> bool" where
  "same_params a b \<longleftrightarrow>
     labels a = labels b \<and> score_th a = score_th b \<and> time_th a = time_th b"

subsection \<open>What one call computes\<close>

lemma scan_eq:
  "scan self t rs (b, acc) =
     (b \<or> (\<exists>r \<in> set rs. candidate self r),
      acc @ (if sustained self t then map strip (filter (candidate self) rs) else []))"
  by (induction rs arbitrary: b acc) (auto simp: strip_def)

lemma get_detections_present:
  assumes "present self rs"
  shows "get_detections self t rs =
     (let out = (if sustained self t then map strip (filter (candidate self) rs) else []);
          self2 = (if out \<noteq> [] then self\<lparr>detections := out\<rparr> else self)
      in (out, if time_detected self < 0 then self2\<lparr>time_detected := t\<rparr> else self2))"
  using assms
  by (simp add: get_detections_def scan_eq absence_def Let_def present_def)

lemma get_detections_absent:
  assumes "\<not> present self rs"
  shows "get_detections self t rs =
     (if time_detected self > 0 then
        if t - time_detected self < absent_time_th then (detections self, self)
        else ([], self\<lparr>detections := [],
                time_detected := (if detections self = [] then time_detected self else - 1)\<rparr>)
      else ([], self))"
  using assms
  by (auto simp add: get_detections_def scan_eq absence_def Let_def present_def)

lemma present_Nil [simp]: "\<not> present self []"
  by (simp add: present_def)

lemma get_detections_no_evidence:
  "\<not> present self rs \<Longrightarrow> get_detections self t rs = get_detections self t []"
  by (simp add: get_detections_absent)

lemma kept_or_cleared:
  assumes "time_detected self > 0"
  shows "time_detected (snd (get_detections self t rs)) = time_detected self
     \<or> (clear_branch self t rs \<and> time_detected (snd (get_detections self t rs)) = - 1)"
  using assms
  by (cases "present self rs")
     (auto simp add: get_detections_present get_detections_absent Let_def clear_branch_def)

lemma reports_Nil [simp]: "\<not> reports l []"
  by (simp add: reports_def)

lemma reports_scanned:
  "reports l (map strip (filter (candidate self) rs)) \<longleftrightarrow> label_present self l rs"
  by (auto simp: reports_def label_present_def strip_def image_iff)

lemma label_present_present:
  "label_present self l rs \<Longrightarrow> present self rs"
  by (auto simp: label_present_def present_def)

lemma report_when_sustained:
  assumes "label_present st l rs" and "0 < time_detected st"
    and "time_th st < t - time_detected st"
  shows "reports l (fst (get_detections st t rs))"
proof -
  from assms(1) have "present st rs" by (rule label_present_present)
  moreover from assms(2,3) have "sustained st t" by (simp add: sustained_def)
  ultimately have "fst (get_detections st t rs) = map strip (filter (candidate st) rs)"
    by (simp add: get_detections_present Let_def)
  with assms(1) show ?thesis by (simp add: reports_scanned)
qed

lemmas eval_defs = init_def get_detections_def candidate_def sustained_def absence_def
  absent_time_th_def cat_def cat_reported_def present_def clear_branch_def
  cat_verified_def cat_accumulating_def

subsection \<open>Fields that a call never assigns\<close>

lemma get_detections_params:
  "labels (snd (get_detections self t rs)) = labels self
   \<and> score_th (snd (get_detections self t rs)) = score_th self
   \<and> time_th (snd (get_detections self t rs)) = time_th self"
  by (cases "present self rs") (simp_all add: get_detections_present get_detections_absent Let_def)

lemma candidate_cong:
  "labels a = labels b \<Longrightarrow> score_th a = score_th b \<Longrightarrow> candidate a = candidate b"
  by (simp add: candidate_def fun_eq_iff)

lemma present_cong:
  "labels a = labels b \<Longrightarrow> score_th a = score_th b \<Longrightarrow> present a = present b"
  by (simp add: present_def fun_eq_iff candidate_cong [of a b])

lemma label_present_cong:
  "labels a = labels b \<Longrightarrow> score_th a = score_th b \<Longrightarrow> label_present a = label_present b"
  by (simp add: label_present_def fun_eq_iff candidate_cong [of a b])

lemma present_step:
  "present (snd (get_detections self t rs)) = present self"
  by (rule present_cong) (simp_all add: get_detections_params)

lemma same_params_step: "same_params a b \<Longrightarrow> same_params (snd (get_detections a t rs)) b"
  by (simp add: same_params_def get_detections_params)

lemma same_params_present: "same_params a b \<Longrightarrow> present a = present b"
  by (intro present_cong) (simp_all add: same_params_def)

lemma same_params_label_present: "same_params a b \<Longrightarrow> label_present a = label_present b"
  by (intro label_present_cong) (simp_all add: same_params_def)

subsection \<open>Invariants of one call\<close>

lemma step_clock:
  assumes "time_detected st < 0 \<or> (0 < time_detected st \<and> time_detected st \<le> b)"
    and "0 < t" and "t \<le> b"
  shows "time_detected (snd (get_detections st t rs)) < 0
     \<or> (0 < time_detected (snd (get_detections st t rs))
         \<and> time_detected (snd (get_detections st t rs)) \<le> b)"
  using assms
  by (cases "present st rs") (auto simp add: get_detections_present get_detections_absent Let_def)

subsection \<open>Sequences of calls\<close>

lemma run_append:
  "run self (xs @ ys) =
     (fst (run self xs) @ fst (run (snd (run self xs)) ys), snd (run (snd (run self xs)) ys))"
  by (induction xs arbitrary: self) (auto simp: split_beta Let_def)

lemma run_params: "same_params st I \<Longrightarrow> same_params (snd (run st fs)) I"
proof (induction fs arbitrary: st)
  case Nil
  then show ?case by simp
next
  case (Cons f fs)
  obtain t rs where f: "f = (t, rs)" by (cases f)
  from Cons.prems have "same_params (snd (get_detections st t rs)) I"
    by (rule same_params_step)
  from Cons.IH [OF this] show ?case using f
    by (simp add: split_beta Let_def)
qed

lemma run_no_streak:
  assumes "\<not> time_detected self > 0" and "\<forall>f \<in> set fs. \<not> present self (snd f)"
  shows "run self fs = (replicate (length fs) [], self)"
  using assms
  by (induction fs) (auto simp: get_detections_absent)

lemma run_evidence_keeps_start:
  assumes "time_detected self > 0" and "\<forall>f \<in> set ps. present self (snd f)"
  shows "time_detected (snd (run self ps)) = time_detected self
     \<and> present (snd (run self ps)) = present self"
  using assms
proof (induction ps arbitrary: self)
  case Nil
  then show ?case by simp
next
  case (Cons f ps)
  obtain t rs where f: "f = (t, rs)" by (cases f)
  let ?s = "snd (get_detections self t rs)"
  from Cons.prems f have pr: "present self rs" by simp
  with Cons.prems(1) have td: "time_detected ?s = time_detected self"
    by (simp add: get_detections_present Let_def)
  have ps: "present ?s = present self" by (rule present_step)
  from Cons.IH [of ?s] td ps Cons.prems
  have "time_detected (snd (run ?s ps)) = time_detected self
     \<and> present (snd (run ?s ps)) = present self" by simp
  then show ?case using f by (simp add: split_beta Let_def)
qed

lemma run_clock:
  assumes "time_detected st < 0 \<or> (0 < time_detected st \<and> time_detected st \<le> b)"
    and "\<forall>f \<in> set fs. 0 < fst f \<and> fst f \<le> b"
  shows "time_detected (snd (run st fs)) < 0
     \<or> (0 < time_detected (snd (run st fs)) \<and> time_detected (snd (run st fs)) \<le> b)"
  using assms
proof (induction fs arbitrary: st)
  case Nil
  then show ?case by simp
next
  case (Cons f fs)
  obtain t rs where f: "f = (t, rs)" by (cases f)
  let ?s = "snd (get_detections st t rs)"
  from Cons.prems f have pos: "0 < t" and tb: "t \<le> b" and rest: "\<forall>f \<in> set fs. 0 < fst f \<and> fst f \<le> b"
    by auto
  from step_clock [OF Cons.prems(1) pos tb]
  have "time_detected ?s < 0 \<or> (0 < time_detected ?s \<and> time_detected ?s \<le> b)" .
  from Cons.IH [OF this rest] show ?case using f
    by (simp add: split_beta Let_def)
qed

subsection \<open>Claims\<close>

text \<open>
  C1. The claim: after a verified report, a frame without evidence that comes less than
  2 seconds after the evidence dropped out returns the cached report. The method
  compares the clock with the start of the streak instead (line 69), so the worked
  scenario of the specification, moved to clock 10, already fails: the cat is reported
  at 11.5, the frame at 12.0 without a cat comes 0.5 seconds after the last evidence,
  and the call returns the empty list and resets the filter to its initial state.
\<close>

theorem grace_ends_two_seconds_after_streak_start:
  "run (init {''cat''} 0.5 1) [(10, [cat]), (10.5, [cat]), (11.5, [cat]), (12, [])]
     = ([[], [], [cat_reported], []], init {''cat''} 0.5 1)"
  by (simp add: eval_defs)

text \<open>
  C2. The claim: a frame without evidence that comes 2 seconds or more after the streak
  start empties the cache and unsets the streak start, also for a streak that has
  reported nothing yet. The method resets the streak start only inside the guard
  \<^verbatim>\<open>len(self.detections) > 0\<close> of line 75. One frame with a cat at the clock
  reading 1700000000 opens a streak; the empty frame three seconds later leaves the
  object as it is, streak start included. The same call on the same object with a
  cached report takes the sibling path and resets the object to its initial state.
\<close>

theorem accumulating_streak_not_reset:
  "snd (run (init {''cat''} 0.5 5) [(1700000000, [cat])]) = cat_accumulating
   \<and> time_detected cat_accumulating > 0
   \<and> \<not> present cat_accumulating []
   \<and> 1700000003 - time_detected cat_accumulating \<ge> absent_time_th
   \<and> get_detections cat_accumulating 1700000003 [] = ([], cat_accumulating)
   \<and> get_detections (cat_accumulating\<lparr>detections := [cat_reported]\<rparr>) 1700000003 []
       = ([], init {''cat''} 0.5 5)"
  by (simp add: eval_defs)

text \<open>
  C3. The worked scenario: the filter \<^verbatim>\<open>Detector({"cat"}, 0.5, 1.0)\<close> sees the cat
  with score 0.9 in three frames, 0, 0.5 and 1.5 seconds after the first call. The
  method samples the clock itself, so the first call comes at some positive reading
  \<open>T\<close>. The first call returns the empty list and sets the streak start to \<open>T\<close>;
  the call at \<open>T + 0.5\<close> returns the empty list; the call at \<open>T + 1.5\<close> returns
  the cat without its score, and the cache holds that report.
\<close>

theorem scenario_positive_clock:
  assumes "0 < T"
  shows "get_detections (init {''cat''} 0.5 1) T [cat]
       = ([], (init {''cat''} 0.5 1)\<lparr>time_detected := T\<rparr>)
     \<and> run (init {''cat''} 0.5 1) [(T, [cat]), (T + 0.5, [cat]), (T + 1.5, [cat])]
       = ([[], [], [cat_reported]],
          (init {''cat''} 0.5 1)\<lparr>time_detected := T, detections := [cat_reported]\<rparr>)"
  using assms by (simp add: eval_defs)

theorem scenario_positive_clock_witness:
  "(0::real) < 10
   \<and> get_detections (init {''cat''} 0.5 1) 10 [cat]
       = ([], (init {''cat''} 0.5 1)\<lparr>time_detected := 10\<rparr>)
   \<and> run (init {''cat''} 0.5 1) [(10, [cat]), (10 + 0.5, [cat]), (10 + 1.5, [cat])]
       = ([[], [], [cat_reported]], cat_verified)"
  using scenario_positive_clock [of 10] by (simp add: cat_verified_def del: run.simps)

text \<open>
  C4. The claim: a label that is in view for no longer than \<^verbatim>\<open>time_th\<close> seconds
  is never reported. The filter \<^verbatim>\<open>Detector({"cat"}, 0.5, 5.0)\<close> sees a cat in one
  frame at the clock reading 1700000000, an empty frame three seconds later and a cat
  again one hour after the first. The cat was never in view for more than one frame;
  but the empty frame did not close the streak (the cache was empty, line 75), so the
  call one hour later finds a streak that is 3600 seconds old and reports the cat in
  the first frame in which it is back.
\<close>

theorem stale_streak_reported_at_once:
  "label_present (init {''cat''} 0.5 5) ''cat'' [cat]
   \<and> \<not> label_present (init {''cat''} 0.5 5) ''cat'' []
   \<and> run (init {''cat''} 0.5 5)
        [(1700000000, [cat]), (1700000003, []), (1700003600, [cat])]
     = ([[], [], [cat_reported]],
        (init {''cat''} 0.5 5)\<lparr>time_detected := 1700000000, detections := [cat_reported]\<rparr>)"
  by (simp add: eval_defs label_present_def)

text \<open>
  C5, as stated, fails in two corners. With the clock at 0 in the first call the streak
  start becomes 0 and is never taken as set: the cat is in both frames of an interval of
  3 seconds, the threshold is 1, and both calls return the empty list. With a negative
  threshold a single call is an interval longer than the threshold, and the first call
  of a streak returns the empty list.
\<close>

theorem report_missed_at_clock_zero_or_single_call:
  "label_present (init {''cat''} 0.5 1) ''cat'' [cat]
   \<and> fst (run (init {''cat''} 0.5 1) [(0, [cat]), (3, [cat])]) = [[], []]
   \<and> label_present (init {''cat''} 0.5 (- 1)) ''cat'' [cat]
   \<and> fst (run (init {''cat''} 0.5 (- 1)) [(10, [cat])]) = [[]]"
  by (simp add: eval_defs label_present_def)

text \<open>
  C5, amended. Let the clock readings of all calls since construction be positive and
  non-decreasing. If every frame of an interval of at least two calls, from clock
  \<open>t1\<close> to clock \<open>tn\<close>, holds evidence for the label \<open>l\<close>, and
  \<open>tn - t1\<close> exceeds \<^verbatim>\<open>time_th\<close>, then the last call of the interval returns a
  list that reports \<open>l\<close>.
\<close>

theorem eventual_report:
  assumes clock: "sorted (map fst (pre @ (t1, r1) # mid @ [(tn, rn)]))"
    and pos: "\<forall>f \<in> set (pre @ (t1, r1) # mid @ [(tn, rn)]). 0 < fst f"
    and every: "\<forall>f \<in> set ((t1, r1) # mid @ [(tn, rn)]). label_present (init ls s th) l (snd f)"
    and long: "tn - t1 > th"
  shows "reports l (last (fst (run (init ls s th) (pre @ (t1, r1) # mid @ [(tn, rn)]))))"
proof -
  let ?I = "init ls s th"
  let ?S0 = "snd (run ?I pre)"
  let ?S1 = "snd (get_detections ?S0 t1 r1)"
  let ?S2 = "snd (run ?S1 mid)"
  have spI: "same_params ?I ?I" by (simp add: same_params_def)
  then have sp0: "same_params ?S0 ?I" by (rule run_params)
  then have sp1: "same_params ?S1 ?I" by (rule same_params_step)
  then have sp2: "same_params ?S2 ?I" by (rule run_params)
  from clock pos have bound: "\<forall>f \<in> set pre. 0 < fst f \<and> fst f \<le> t1"
    by (auto simp add: sorted_append)
  have "time_detected ?I < 0 \<or> (0 < time_detected ?I \<and> time_detected ?I \<le> t1)"
    by (simp add: init_def)
  from run_clock [OF this bound]
  have td0: "time_detected ?S0 < 0 \<or> (0 < time_detected ?S0 \<and> time_detected ?S0 \<le> t1)" .
  from pos have t1: "0 < t1" by simp
  from every have "label_present ?I l r1" by simp
  then have "present ?I r1" by (rule label_present_present)
  with sp0 have pr1: "present ?S0 r1" by (simp add: same_params_present)
  with td0 t1 have td1: "0 < time_detected ?S1 \<and> time_detected ?S1 \<le> t1"
    by (auto simp add: get_detections_present Let_def)
  have "\<forall>f \<in> set mid. present ?S1 (snd f)"
    using every sp1 by (auto simp add: same_params_present dest: label_present_present)
  with td1 have td2: "time_detected ?S2 = time_detected ?S1"
    by (simp add: run_evidence_keeps_start)
  from every sp2 have lp: "label_present ?S2 l rn"
    by (simp add: same_params_label_present)
  from sp2 have "time_th ?S2 = th" by (simp add: same_params_def init_def)
  with td1 td2 long have "0 < time_detected ?S2" and "time_th ?S2 < tn - time_detected ?S2"
    by simp_all
  with lp have "reports l (fst (get_detections ?S2 tn rn))"
    by (rule report_when_sustained)
  moreover have "last (fst (run ?I (pre @ (t1, r1) # mid @ [(tn, rn)])))
      = fst (get_detections ?S2 tn rn)"
    by (simp add: run_append split_beta Let_def)
  ultimately show ?thesis by simp
qed

theorem eventual_report_witness:
  "sorted (map fst ([(9, [dog])] @ (10, [cat]) # [(10.5, [cat, dog])] @ [(11.5, [cat])] :: frame list))
   \<and> (0::real) < 9 \<and> (0::real) < 10 \<and> (0::real) < 10.5 \<and> (0::real) < 11.5
   \<and> label_present (init {''cat''} 0.5 1) ''cat'' [cat]
   \<and> label_present (init {''cat''} 0.5 1) ''cat'' [cat, dog]
   \<and> 11.5 - 10 > (1::real)
   \<and> reports ''cat'' (last (fst (run (init {''cat''} 0.5 1)
         ([(9, [dog])] @ (10, [cat]) # [(10.5, [cat, dog])] @ [(11.5, [cat])]))))"
  using eventual_report [where pre = "[(9, [dog])]" and ls = "{''cat''}" and s = "0.5"
      and th = 1 and ?r1.0 = "[cat]" and ?t1.0 = 10 and l = "''cat''"
      and mid = "[(10.5, [cat, dog])]" and tn = "11.5" and rn = "[cat]"]
  by (simp add: init_def label_present_def candidate_def cat_def dog_def)

text \<open>
  C6. The streak start is assigned last (lines 84 to 87). When it is unset at entry
  (the test \<^verbatim>\<open>time_detected < 0.0\<close> of line 84 holds) and the frame holds evidence,
  the call returns the empty list and changes nothing but the streak start, which
  becomes the clock reading; this holds for every value of the two thresholds, zero
  and negative ones included.
\<close>

theorem first_frame_not_reported:
  assumes "time_detected self < 0" and "present self results"
  shows "get_detections self curr_time results = ([], self\<lparr>time_detected := curr_time\<rparr>)"
  using assms by (simp add: get_detections_present sustained_def)

theorem first_frame_not_reported_witness:
  "time_detected (init {''cat''} 0.5 (- 3)) < 0 \<and> present (init {''cat''} 0.5 (- 3)) [cat]
   \<and> get_detections (init {''cat''} 0.5 (- 3)) 10 [cat]
       = ([], (init {''cat''} 0.5 (- 3))\<lparr>time_detected := 10\<rparr>)"
  using first_frame_not_reported [of "init {''cat''} 0.5 (- 3)" "[cat]" 10]
  by (simp add: init_def present_def candidate_def cat_def)

text \<open>
  C7. A call that does not enter the else branch of line 73 never replaces a non-empty
  cache by an empty one: the only other assignment to the cache, line 82, is guarded by
  \<^verbatim>\<open>len(curr_detections) > 0\<close>.
\<close>

theorem sticky_cache:
  assumes "detections self \<noteq> []" and "\<not> clear_branch self curr_time results"
  shows "detections (snd (get_detections self curr_time results)) \<noteq> []"
proof (cases "present self results")
  case True
  then show ?thesis using assms(1)
    by (simp add: get_detections_present Let_def)
next
  case False
  then show ?thesis using assms
    by (auto simp add: get_detections_absent clear_branch_def)
qed

theorem sticky_cache_witness:
  "detections cat_verified \<noteq> [] \<and> \<not> clear_branch cat_verified 11.9 []
   \<and> detections (snd (get_detections cat_verified 11.9 [])) \<noteq> []"
  using sticky_cache [of cat_verified "11.9" "[]"]
  by (simp add: cat_verified_def cat_reported_def init_def clear_branch_def absent_time_th_def)

text \<open>
  C8. From the idle state (streak start unset, cache empty) a sequence of calls whose
  frames hold no evidence returns the empty list every time and ends in the state it
  started from. In every state a frame without evidence is handled as the empty frame
  is, in the returned list and in the updated object.
\<close>

theorem idle_idempotent:
  assumes "time_detected self < 0" and "detections self = []"
    and "\<forall>f \<in> set fs. \<not> present self (snd f)"
    and "\<not> present self' results"
  shows "run self fs = (replicate (length fs) [], self)
     \<and> get_detections self' curr_time results = get_detections self' curr_time []"
proof
  show "run self fs = (replicate (length fs) [], self)"
    using assms(1,3) by (simp add: run_no_streak)
  show "get_detections self' curr_time results = get_detections self' curr_time []"
    using assms(4) by (rule get_detections_no_evidence)
qed

theorem idle_idempotent_witness:
  "time_detected (init {''cat''} 0.5 1) < 0 \<and> detections (init {''cat''} 0.5 1) = []
   \<and> \<not> present (init {''cat''} 0.5 1) []
   \<and> \<not> present (init {''cat''} 0.5 1) [faint_cat]
   \<and> \<not> present (init {''cat''} 0.5 1) [dog, faint_cat]
   \<and> \<not> present cat_verified [dog, faint_cat]
   \<and> run (init {''cat''} 0.5 1) [(10, []), (11, [faint_cat]), (12, [dog, faint_cat])]
        = ([[], [], []], init {''cat''} 0.5 1)
   \<and> get_detections cat_verified 11.9 [dog, faint_cat] = get_detections cat_verified 11.9 []"
  using idle_idempotent [of "init {''cat''} 0.5 1" "[(10, []), (11, [faint_cat]), (12, [dog, faint_cat])]"
      cat_verified "[dog, faint_cat]" "11.9"]
  by (simp add: init_def present_def candidate_def dog_def faint_cat_def cat_verified_def)

text \<open>
  C9. When the streak start is not set (the test \<^verbatim>\<open>self.time_detected > 0.0\<close> fails,
  as it does for the sentinel \<open>-1\<close>), the call returns the empty list, whatever the
  frame holds and whatever the cache holds.
\<close>

theorem unset_streak_returns_empty:
  assumes "\<not> time_detected self > 0"
  shows "fst (get_detections self curr_time results) = []"
  using assms
  by (simp add: get_detections_def scan_eq sustained_def absence_def Let_def split: prod.splits)

theorem unset_streak_returns_empty_witness:
  "\<not> time_detected
        ((init {''cat''} 0.5 (- 3))\<lparr>detections := [\<lparr>det_label = ''dog'', det_bbox = [0, 0, 1, 1]\<rparr>]\<rparr>) > 0
   \<and> fst (get_detections
        ((init {''cat''} 0.5 (- 3))\<lparr>detections := [\<lparr>det_label = ''dog'', det_bbox = [0, 0, 1, 1]\<rparr>]\<rparr>)
        10 [\<lparr>bbox = [0, 0, 1, 1], label = ''cat'', score = 0.9\<rparr>]) = []"
  using unset_streak_returns_empty
    [of "(init {''cat''} 0.5 (- 3))\<lparr>detections := [\<lparr>det_label = ''dog'', det_bbox = [0, 0, 1, 1]\<rparr>]\<rparr>"
        10 "[\<lparr>bbox = [0, 0, 1, 1], label = ''cat'', score = 0.9\<rparr>]"]
  by (simp add: init_def)

text \<open>
  C10. While the streak start is set, a call either keeps it or, in the else branch of
  line 73, resets it to the sentinel; it is never moved to a later clock reading. It
  is kept along every sequence \<open>ps\<close> of frames with evidence, at whatever clock
  readings they come. So the frame without evidence that follows is judged by the
  clock minus the original streak start: below \<open>absent_time_th\<close> the cache is
  returned, otherwise the call returns the empty list and the cache, if any, is
  emptied with the streak start reset.
\<close>

theorem grace_deadline_anchored_to_streak_start:
  assumes "time_detected self > 0"
    and "\<forall>f \<in> set ps. present self (snd f)"
    and "\<not> present self results"
  shows "(time_detected (snd (get_detections self t rs)) = time_detected self
          \<or> (clear_branch self t rs \<and> time_detected (snd (get_detections self t rs)) = - 1))
     \<and> time_detected (snd (run self ps)) = time_detected self
     \<and> get_detections (snd (run self ps)) curr_time results =
        (if curr_time - time_detected self < absent_time_th
         then (detections (snd (run self ps)), snd (run self ps))
         else ([], if detections (snd (run self ps)) = [] then snd (run self ps)
                   else (snd (run self ps))\<lparr>detections := [], time_detected := - 1\<rparr>))"
proof -
  let ?s = "snd (run self ps)"
  from run_evidence_keeps_start [OF assms(1,2)]
  have td: "time_detected ?s = time_detected self" and pr: "present ?s = present self"
    by simp_all
  from pr assms(3) have "\<not> present ?s results" by simp
  then show ?thesis using td assms(1) kept_or_cleared [OF assms(1), of t rs]
    by (simp add: get_detections_absent)
qed

theorem grace_deadline_anchored_to_streak_start_witness:
  "time_detected cat_verified > 0
   \<and> present cat_verified [cat]
   \<and> \<not> present cat_verified []
   \<and> time_detected (snd (run cat_verified [(11.9, [cat])])) = 10
   \<and> fst (get_detections (snd (run cat_verified [(11.9, [cat])])) 12 []) = []"
  using grace_deadline_anchored_to_streak_start [where self = cat_verified
      and ps = "[(11.9, [cat])]" and results = "[]" and curr_time = 12 and t = 12 and rs = "[]"]
  by (simp add: cat_verified_def init_def present_def candidate_def cat_def absent_time_th_def)

end
